theory Spec2Isabelle
  imports Main
begin

section \<open>Restaurants MCP server: gateway client and tool adapters\<close>

text \<open>
  A shallow embedding of \<^verbatim>\<open>restaurants_server.py\<close>: the gateway function
  \<^verbatim>\<open>call_rapidapi_request\<close> and the two tools \<^verbatim>\<open>search_locations\<close> and
  \<^verbatim>\<open>get_restaurants\<close>. Python exceptions are values of a sum type (\<open>Inl\<close> is a raised
  exception, \<open>Inr\<close> a returned value). Logging is the only effect left out; the f-strings
  passed to the logger evaluate nothing that the returned value does not evaluate as well.
\<close>

subsection \<open>JSON values, as \<^verbatim>\<open>response.json()\<close> produces them\<close>

text \<open>
  A JSON object is a Python dict, here an association list read with \<open>map_of\<close>. Floats are
  kept abstract (type \<open>'f\<close>): nothing in the program computes with them, they are only
  rendered.
\<close>

datatype 'f json =
    JNull
  | JBool bool
  | JInt int
  | JFloat 'f
  | JStr string
  | JArr "'f json list"
  | JObj "(string \<times> 'f json) list"

datatype pyexc = TypeError | AttributeError | KeyError

definition exc_bind :: "'e + 'a \<Rightarrow> ('a \<Rightarrow> 'e + 'b) \<Rightarrow> 'e + 'b" where
  "exc_bind m f = (case m of Inl e \<Rightarrow> Inl e | Inr v \<Rightarrow> f v)"

subsection \<open>Python primitives the tools use\<close>

definition nl :: string where
  "nl = [CHR 0x0A]"

text \<open>\<^verbatim>\<open>str(n)\<close> for a Python int.\<close>

definition digit_char :: "nat \<Rightarrow> char" where
  "digit_char d = ''0123456789'' ! d"

fun str_nat :: "nat \<Rightarrow> string" where
  "str_nat n =
     (if n < 10 then [digit_char n] else str_nat (n div 10) @ [digit_char (n mod 10)])"

declare str_nat.simps [simp del]

definition str_int :: "int \<Rightarrow> string" where
  "str_int i = (if i < 0 then CHR ''-'' # str_nat (nat (- i)) else str_nat (nat i))"

text \<open>
  What an f-string field \<^verbatim>\<open>{v}\<close> renders: \<^verbatim>\<open>str(v)\<close>. A string renders as itself.
  The rendering of floats, lists and dicts (\<^verbatim>\<open>repr\<close> of floats and of nested values) is
  the parameter \<open>R\<close>.
\<close>

definition py_str :: "('f json \<Rightarrow> string) \<Rightarrow> 'f json \<Rightarrow> string" where
  "py_str R v =
     (case v of
        JStr s \<Rightarrow> s
      | JNull \<Rightarrow> ''None''
      | JBool b \<Rightarrow> (if b then ''True'' else ''False'')
      | JInt i \<Rightarrow> str_int i
      | _ \<Rightarrow> R v)"

text \<open>\<^verbatim>\<open>p in s\<close> for two strings: \<open>p\<close> occurs in \<open>s\<close> as a contiguous run.\<close>

fun py_substr :: "string \<Rightarrow> string \<Rightarrow> bool" where
  "py_substr p [] = (p = [])"
| "py_substr p (c # cs) = (take (length p) (c # cs) = p \<or> py_substr p cs)"

text \<open>
  \<^verbatim>\<open>k in v\<close> for a string \<open>k\<close>: key membership in a dict, element membership in a list,
  substring test in a string; any other value is not iterable and raises \<^verbatim>\<open>TypeError\<close>.
\<close>

definition py_contains :: "string \<Rightarrow> 'f json \<Rightarrow> pyexc + bool" where
  "py_contains k v =
     (case v of
        JObj d \<Rightarrow> Inr (map_of d k \<noteq> None)
      | JArr xs \<Rightarrow> Inr (JStr k \<in> set xs)
      | JStr s \<Rightarrow> Inr (py_substr k s)
      | _ \<Rightarrow> Inl TypeError)"

text \<open>
  \<^verbatim>\<open>v[k]\<close> for a string \<open>k\<close>: a dict looks the key up; a list or a string refuses a string
  index and every other value is not subscriptable, both with \<^verbatim>\<open>TypeError\<close>.
\<close>

definition py_getitem :: "'f json \<Rightarrow> string \<Rightarrow> pyexc + 'f json" where
  "py_getitem v k =
     (case v of
        JObj d \<Rightarrow> (case map_of d k of Some x \<Rightarrow> Inr x | None \<Rightarrow> Inl KeyError)
      | _ \<Rightarrow> Inl TypeError)"

text \<open>\<^verbatim>\<open>v.get(k, default)\<close>: only a dict has the method.\<close>

definition py_get :: "'f json \<Rightarrow> string \<Rightarrow> string \<Rightarrow> pyexc + 'f json" where
  "py_get v k dflt =
     (case v of
        JObj d \<Rightarrow> Inr (case map_of d k of Some x \<Rightarrow> x | None \<Rightarrow> JStr dflt)
      | _ \<Rightarrow> Inl AttributeError)"

text \<open>\<^verbatim>\<open>sep.join(xs)\<close>.\<close>

fun py_join :: "string \<Rightarrow> string list \<Rightarrow> string" where
  "py_join sep [] = []"
| "py_join sep [x] = x"
| "py_join sep (x # y # ys) = x @ sep @ py_join sep (y # ys)"

definition block_sep :: string where
  "block_sep = nl @ ''---'' @ nl"

subsection \<open>The gateway: \<^verbatim>\<open>call_rapidapi_request\<close>\<close>

record config =
  KEY :: string
  HOST :: string

text \<open>
  The exceptions the three calls inside the \<^verbatim>\<open>try\<close> can raise, each with its
  \<^verbatim>\<open>str(e)\<close>: a failure of \<^verbatim>\<open>client.get\<close>, of \<^verbatim>\<open>raise_for_status\<close> and of
  \<^verbatim>\<open>json()\<close>. All three derive from \<^verbatim>\<open>Exception\<close>, the class the handler catches.
\<close>

datatype http_exc = TransportError string | HTTPStatusError string | JSONDecodeError string

fun str_exc :: "http_exc \<Rightarrow> string" where
  "str_exc (TransportError m) = m"
| "str_exc (HTTPStatusError m) = m"
| "str_exc (JSONDecodeError m) = m"

text \<open>
  A response of the HTTP library: its status code, the message \<^verbatim>\<open>raise_for_status\<close>
  raises with, and what \<^verbatim>\<open>json()\<close> does with the body (the decoder's message, or the
  decoded value). The client is the environment: from URL, headers and query parameters
  it either fails with a message or gives a response.
\<close>

datatype 'f response =
  Response (status_code: nat) (status_message: string) (body_json: "string + 'f json")

type_synonym 'f client =
  "string \<Rightarrow> (string \<times> string) list \<Rightarrow> (string \<times> string) list option \<Rightarrow> string + 'f response"

definition client_get ::
  "'f client \<Rightarrow> string \<Rightarrow> (string \<times> string) list \<Rightarrow> (string \<times> string) list option
     \<Rightarrow> http_exc + 'f response" where
  "client_get client url headers params =
     (case client url headers params of Inl m \<Rightarrow> Inl (TransportError m) | Inr r \<Rightarrow> Inr r)"

text \<open>
  \<^verbatim>\<open>response.raise_for_status()\<close> of the HTTP library: a status outside 200..299 raises.
\<close>

definition raise_for_status :: "'f response \<Rightarrow> http_exc + unit" where
  "raise_for_status r =
     (if 200 \<le> status_code r \<and> status_code r \<le> 299 then Inr ()
      else Inl (HTTPStatusError (status_message r)))"

definition response_json :: "'f response \<Rightarrow> http_exc + 'f json" where
  "response_json r = (case body_json r of Inl m \<Rightarrow> Inl (JSONDecodeError m) | Inr v \<Rightarrow> Inr v)"

text \<open>
  The body of the \<^verbatim>\<open>try\<close>, and the function: \<^verbatim>\<open>except Exception as e\<close> turns every
  exception of the body into the dict \<^verbatim>\<open>{"error": str(e)}\<close>.
\<close>

definition request_body ::
  "config \<Rightarrow> 'f client \<Rightarrow> string \<Rightarrow> (string \<times> string) list option \<Rightarrow> http_exc + 'f json" where
  "request_body cfg client endpoint params =
     (let url = ''https://'' @ HOST cfg @ endpoint;
          headers = [(''X-RapidAPI-Key'', KEY cfg), (''X-RapidAPI-Host'', HOST cfg)]
      in exc_bind (client_get client url headers params) (\<lambda>response.
         exc_bind (raise_for_status response) (\<lambda>_.
         response_json response)))"

definition call_rapidapi_request ::
  "config \<Rightarrow> 'f client \<Rightarrow> string \<Rightarrow> (string \<times> string) list option \<Rightarrow> pyexc + 'f json" where
  "call_rapidapi_request cfg client endpoint params =
     (case request_body cfg client endpoint params of
        Inr v \<Rightarrow> Inr v
      | Inl e \<Rightarrow> Inr (JObj [(''error'', JStr (str_exc e))]))"

subsection \<open>Tool: \<^verbatim>\<open>search_locations\<close>\<close>

definition unexpected_format :: string where
  "unexpected_format = ''Unexpected response format from the API.''"

text \<open>The four-line block of one location.\<close>

definition location_info :: "('f json \<Rightarrow> string) \<Rightarrow> 'f json \<Rightarrow> pyexc + string" where
  "location_info R location =
     exc_bind (py_get location ''localizedName'' ''Unknown'') (\<lambda>name.
     exc_bind (py_get location ''locationId'' ''Unknown'') (\<lambda>lid.
     exc_bind (py_get location ''latitude'' ''N/A'') (\<lambda>lat.
     exc_bind (py_get location ''longitude'' ''N/A'') (\<lambda>lon.
     exc_bind (py_get location ''placeType'' ''Unknown'') (\<lambda>ptype.
     Inr (''Name: '' @ py_str R name @ nl
          @ ''Location Id: '' @ py_str R lid @ nl
          @ ''Coordinates: '' @ py_str R lat @ '', '' @ py_str R lon @ nl
          @ ''PlaceType: '' @ py_str R ptype @ nl))))))"

text \<open>The \<^verbatim>\<open>for\<close> loop: \<open>results\<close> is the list appended to.\<close>

fun locations_loop ::
  "('f json \<Rightarrow> string) \<Rightarrow> 'f json list \<Rightarrow> string list \<Rightarrow> pyexc + string list" where
  "locations_loop R [] results = Inr results"
| "locations_loop R (location # rest) results =
     (case location_info R location of
        Inl e \<Rightarrow> Inl e
      | Inr info \<Rightarrow> locations_loop R rest (results @ [info]))"

text \<open>
  The tool after the gateway call. The condition
  \<^verbatim>\<open>"data" in result and isinstance(result["data"], list)\<close> is evaluated left to right.
\<close>

definition locations_of_result :: "('f json \<Rightarrow> string) \<Rightarrow> 'f json \<Rightarrow> pyexc + string" where
  "locations_of_result R result =
     exc_bind (py_contains ''error'' result) (\<lambda>has_error.
     if has_error then
       exc_bind (py_getitem result ''error'') (\<lambda>e.
       Inr (''Error fetching locations: '' @ py_str R e))
     else
       exc_bind (py_contains ''data'' result) (\<lambda>has_data.
       if \<not> has_data then Inr unexpected_format
       else
         exc_bind (py_getitem result ''data'') (\<lambda>d.
         case d of
           JArr locations \<Rightarrow>
             exc_bind (locations_loop R locations []) (\<lambda>results.
             Inr (if results \<noteq> [] then py_join block_sep results
                  else ''No locations found matching your query.''))
         | _ \<Rightarrow> Inr unexpected_format)))"

definition search_locations ::
  "('f json \<Rightarrow> string) \<Rightarrow> config \<Rightarrow> 'f client \<Rightarrow> string \<Rightarrow> pyexc + string" where
  "search_locations R cfg client query =
     (let endpoint = ''/api/v1/restaurant/searchLocation'';
          params = [(''query'', query)]
      in exc_bind (call_rapidapi_request cfg client endpoint (Some params))
           (locations_of_result R))"

subsection \<open>Tool: \<^verbatim>\<open>get_restaurants\<close>\<close>

text \<open>The seven fields of one restaurant, as first assigned to \<^verbatim>\<open>restaurant_info\<close>.\<close>

definition restaurant_fields :: "('f json \<Rightarrow> string) \<Rightarrow> 'f json \<Rightarrow> pyexc + string" where
  "restaurant_fields R restaurant =
     exc_bind (py_get restaurant ''name'' ''Unknown'') (\<lambda>name.
     exc_bind (py_get restaurant ''averageRating'' ''Unknown'') (\<lambda>rating.
     exc_bind (py_get restaurant ''userReviewCount'' ''Unknown'') (\<lambda>reviews.
     exc_bind (py_get restaurant ''menuUrl'' ''Unknown'') (\<lambda>menu.
     exc_bind (py_get restaurant ''parentGeoName'' ''Unknown'') (\<lambda>geo.
     exc_bind (py_get restaurant ''currentOpenStatusCategory'' ''Unknown'') (\<lambda>status.
     exc_bind (py_get restaurant ''isPremium'' ''Unknown'') (\<lambda>premium.
     Inr (''Name: '' @ py_str R name @ nl
          @ ''Average Rating: '' @ py_str R rating @ nl
          @ ''User Review Count: '' @ py_str R reviews @ nl
          @ ''Menu Url: '' @ py_str R menu @ nl
          @ ''City Name GeoName: '' @ py_str R geo @ nl
          @ ''Status: '' @ py_str R status @ nl
          @ ''Premium: '' @ py_str R premium @ nl))))))))"

text \<open>\<^verbatim>\<open>restaurant_info += f"Room: {restaurant_info}\n"\<close>.\<close>

definition restaurant_info :: "('f json \<Rightarrow> string) \<Rightarrow> 'f json \<Rightarrow> pyexc + string" where
  "restaurant_info R restaurant =
     exc_bind (restaurant_fields R restaurant) (\<lambda>info.
     Inr (info @ (''Room: '' @ info @ nl)))"

fun restaurants_loop ::
  "('f json \<Rightarrow> string) \<Rightarrow> 'f json list \<Rightarrow> string list \<Rightarrow> pyexc + string list" where
  "restaurants_loop R [] results = Inr results"
| "restaurants_loop R (restaurant # rest) results =
     (case restaurant_info R restaurant of
        Inl e \<Rightarrow> Inl e
      | Inr info \<Rightarrow> restaurants_loop R rest (results @ [info]))"

text \<open>
  The tool after the gateway call. The condition \<^verbatim>\<open>"data" in result and "data" in
  result["data"] and isinstance(result["data"]["data"], list)\<close> is evaluated left to right;
  \<^verbatim>\<open>restaurants[:10]\<close> is \<open>take 10\<close>.
\<close>

definition restaurants_of_result :: "('f json \<Rightarrow> string) \<Rightarrow> 'f json \<Rightarrow> pyexc + string" where
  "restaurants_of_result R result =
     exc_bind (py_contains ''error'' result) (\<lambda>has_error.
     if has_error then
       exc_bind (py_getitem result ''error'') (\<lambda>e.
       Inr (''Error fetching restaurants: '' @ py_str R e))
     else
       exc_bind (py_contains ''data'' result) (\<lambda>has_data.
       if \<not> has_data then Inr unexpected_format
       else
         exc_bind (py_getitem result ''data'') (\<lambda>d.
         exc_bind (py_contains ''data'' d) (\<lambda>has_nested.
         if \<not> has_nested then Inr unexpected_format
         else
           exc_bind (py_getitem d ''data'') (\<lambda>dd.
           case dd of
             JArr restaurants \<Rightarrow>
               exc_bind (restaurants_loop R (take 10 restaurants) []) (\<lambda>results.
               Inr (if results \<noteq> [] then py_join block_sep results
                    else ''No Restaurants found for this location and dates.''))
           | _ \<Rightarrow> Inr unexpected_format)))))"

definition get_restaurants ::
  "('f json \<Rightarrow> string) \<Rightarrow> config \<Rightarrow> 'f client \<Rightarrow> string \<Rightarrow> pyexc + string" where
  "get_restaurants R cfg client location_id =
     (let endpoint = ''/api/v1/restaurant/searchRestaurants'';
          params = [(''locationId'', location_id)]
      in exc_bind (call_rapidapi_request cfg client endpoint (Some params))
           (restaurants_of_result R))"

subsection \<open>Notions used to state the properties\<close>

text \<open>
  These definitions follow the words of the specification, not the source: the text it
  describes for one entry, where every field is either the rendering of the value stored
  under its key or, when the key is absent, the placeholder. The lemmas of the next
  section compare them with \<open>location_info\<close>, \<open>restaurant_fields\<close> and
  \<open>restaurant_info\<close>, which are the source.
\<close>

definition is_object :: "'f json \<Rightarrow> bool" where
  "is_object v = (case v of JObj _ \<Rightarrow> True | _ \<Rightarrow> False)"

definition obj_items :: "'f json \<Rightarrow> (string \<times> 'f json) list" where
  "obj_items v = (case v of JObj d \<Rightarrow> d | _ \<Rightarrow> [])"

definition field_text :: "('f json \<Rightarrow> string) \<Rightarrow> 'f json \<Rightarrow> string \<Rightarrow> string \<Rightarrow> string" where
  "field_text R v k placeholder =
     (case map_of (obj_items v) k of Some x \<Rightarrow> py_str R x | None \<Rightarrow> placeholder)"

definition location_block :: "('f json \<Rightarrow> string) \<Rightarrow> 'f json \<Rightarrow> string" where
  "location_block R v =
     ''Name: '' @ field_text R v ''localizedName'' ''Unknown'' @ nl
     @ ''Location Id: '' @ field_text R v ''locationId'' ''Unknown'' @ nl
     @ ''Coordinates: '' @ field_text R v ''latitude'' ''N/A'' @ '', ''
         @ field_text R v ''longitude'' ''N/A'' @ nl
     @ ''PlaceType: '' @ field_text R v ''placeType'' ''Unknown'' @ nl"

definition restaurant_text :: "('f json \<Rightarrow> string) \<Rightarrow> 'f json \<Rightarrow> string" where
  "restaurant_text R v =
     ''Name: '' @ field_text R v ''name'' ''Unknown'' @ nl
     @ ''Average Rating: '' @ field_text R v ''averageRating'' ''Unknown'' @ nl
     @ ''User Review Count: '' @ field_text R v ''userReviewCount'' ''Unknown'' @ nl
     @ ''Menu Url: '' @ field_text R v ''menuUrl'' ''Unknown'' @ nl
     @ ''City Name GeoName: '' @ field_text R v ''parentGeoName'' ''Unknown'' @ nl
     @ ''Status: '' @ field_text R v ''currentOpenStatusCategory'' ''Unknown'' @ nl
     @ ''Premium: '' @ field_text R v ''isPremium'' ''Unknown'' @ nl"

definition restaurant_block :: "('f json \<Rightarrow> string) \<Rightarrow> 'f json \<Rightarrow> string" where
  "restaurant_block R v = restaurant_text R v @ ''Room: '' @ restaurant_text R v @ nl"

section \<open>Properties\<close>

subsection \<open>Formatting one entry, and the loops\<close>

lemma py_get_object:
  "py_get (JObj d) k p = Inr (case map_of d k of Some x \<Rightarrow> x | None \<Rightarrow> JStr p)"
  by (simp add: py_get_def)

lemma py_str_get:
  "py_str R (case map_of d k of Some x \<Rightarrow> x | None \<Rightarrow> JStr p) = field_text R (JObj d) k p"
  by (simp add: field_text_def obj_items_def py_str_def split: option.splits)

lemma py_get_non_object: "\<not> is_object v \<Longrightarrow> py_get v k p = Inl AttributeError"
  by (cases v) (simp_all add: py_get_def is_object_def)

lemma location_info_object: "location_info R (JObj d) = Inr (location_block R (JObj d))"
  by (simp add: location_info_def exc_bind_def py_get_object py_str_get location_block_def)

lemma location_info_non_object: "\<not> is_object v \<Longrightarrow> location_info R v = Inl AttributeError"
  by (simp add: location_info_def exc_bind_def py_get_non_object)

lemma restaurant_fields_object: "restaurant_fields R (JObj d) = Inr (restaurant_text R (JObj d))"
  by (simp add: restaurant_fields_def exc_bind_def py_get_object py_str_get restaurant_text_def)

lemma restaurant_info_object: "restaurant_info R (JObj d) = Inr (restaurant_block R (JObj d))"
  by (simp add: restaurant_info_def exc_bind_def restaurant_fields_object restaurant_block_def)

lemma restaurant_info_non_object: "\<not> is_object v \<Longrightarrow> restaurant_info R v = Inl AttributeError"
  by (simp add: restaurant_info_def restaurant_fields_def exc_bind_def py_get_non_object)

lemma locations_loop_objects:
  "list_all is_object xs \<Longrightarrow> locations_loop R xs acc = Inr (acc @ map (location_block R) xs)"
proof (induction xs arbitrary: acc)
  case Nil
  show ?case by simp
next
  case (Cons x xs)
  from Cons.prems obtain d where x: "x = JObj d"
    by (cases x) (simp_all add: is_object_def)
  from Cons.prems have "list_all is_object xs" by simp
  then show ?case
    by (simp add: x location_info_object Cons.IH)
qed

lemma locations_loop_non_object:
  "\<not> list_all is_object xs \<Longrightarrow> locations_loop R xs acc = Inl AttributeError"
proof (induction xs arbitrary: acc)
  case Nil
  then show ?case by simp
next
  case (Cons x xs)
  show ?case
  proof (cases "is_object x")
    case True
    then obtain d where x: "x = JObj d"
      by (cases x) (simp_all add: is_object_def)
    from True Cons.prems have "\<not> list_all is_object xs" by simp
    then show ?thesis
      by (simp add: x location_info_object Cons.IH)
  next
    case False
    then show ?thesis by (simp add: location_info_non_object)
  qed
qed

lemma restaurants_loop_objects:
  "list_all is_object xs \<Longrightarrow> restaurants_loop R xs acc = Inr (acc @ map (restaurant_block R) xs)"
proof (induction xs arbitrary: acc)
  case Nil
  show ?case by simp
next
  case (Cons x xs)
  from Cons.prems obtain d where x: "x = JObj d"
    by (cases x) (simp_all add: is_object_def)
  from Cons.prems have "list_all is_object xs" by simp
  then show ?case
    by (simp add: x restaurant_info_object Cons.IH)
qed

lemma restaurants_loop_non_object:
  "\<not> list_all is_object xs \<Longrightarrow> restaurants_loop R xs acc = Inl AttributeError"
proof (induction xs arbitrary: acc)
  case Nil
  then show ?case by simp
next
  case (Cons x xs)
  show ?case
  proof (cases "is_object x")
    case True
    then obtain d where x: "x = JObj d"
      by (cases x) (simp_all add: is_object_def)
    from True Cons.prems have "\<not> list_all is_object xs" by simp
    then show ?thesis
      by (simp add: x restaurant_info_object Cons.IH)
  next
    case False
    then show ?thesis by (simp add: restaurant_info_non_object)
  qed
qed

subsection \<open>The tools after the gateway call\<close>

lemma search_locations_result:
  "call_rapidapi_request cfg client ''/api/v1/restaurant/searchLocation''
       (Some [(''query'', query)]) = Inr result
   \<Longrightarrow> search_locations R cfg client query = locations_of_result R result"
  by (simp add: search_locations_def exc_bind_def)

lemma get_restaurants_result:
  "call_rapidapi_request cfg client ''/api/v1/restaurant/searchRestaurants''
       (Some [(''locationId'', location_id)]) = Inr result
   \<Longrightarrow> get_restaurants R cfg client location_id = restaurants_of_result R result"
  by (simp add: get_restaurants_def exc_bind_def)

lemma locations_of_result_error:
  "map_of d ''error'' = Some v
   \<Longrightarrow> locations_of_result R (JObj d) = Inr (''Error fetching locations: '' @ py_str R v)"
  by (simp add: locations_of_result_def exc_bind_def py_contains_def py_getitem_def)

lemma restaurants_of_result_error:
  "map_of d ''error'' = Some v
   \<Longrightarrow> restaurants_of_result R (JObj d) = Inr (''Error fetching restaurants: '' @ py_str R v)"
  by (simp add: restaurants_of_result_def exc_bind_def py_contains_def py_getitem_def)

lemma locations_of_result_list:
  "map_of d ''error'' = None \<Longrightarrow> map_of d ''data'' = Some (JArr xs)
   \<Longrightarrow> locations_of_result R (JObj d) =
       (if list_all is_object xs
        then Inr (if xs = [] then ''No locations found matching your query.''
                  else py_join block_sep (map (location_block R) xs))
        else Inl AttributeError)"
  by (simp add: locations_of_result_def exc_bind_def py_contains_def py_getitem_def
      locations_loop_objects locations_loop_non_object)

lemma locations_of_result_no_list:
  "map_of d ''error'' = None \<Longrightarrow> \<forall>xs. map_of d ''data'' \<noteq> Some (JArr xs)
   \<Longrightarrow> locations_of_result R (JObj d) = Inr unexpected_format"
  by (cases "map_of d ''data''")
     (auto simp: locations_of_result_def exc_bind_def py_contains_def py_getitem_def
       split: json.splits)

lemma restaurants_of_result_list:
  "map_of d ''error'' = None \<Longrightarrow> map_of d ''data'' = Some (JObj d1)
   \<Longrightarrow> map_of d1 ''data'' = Some (JArr xs)
   \<Longrightarrow> restaurants_of_result R (JObj d) =
       (if list_all is_object (take 10 xs)
        then Inr (if xs = [] then ''No Restaurants found for this location and dates.''
                  else py_join block_sep (map (restaurant_block R) (take 10 xs)))
        else Inl AttributeError)"
  by (simp add: restaurants_of_result_def exc_bind_def py_contains_def py_getitem_def
      restaurants_loop_objects restaurants_loop_non_object)

lemma restaurants_of_result_scalar:
  "map_of d ''error'' = None \<Longrightarrow> map_of d ''data'' = Some v
   \<Longrightarrow> v = JNull \<or> v = JBool b \<or> v = JInt i \<or> v = JFloat f
   \<Longrightarrow> restaurants_of_result R (JObj d) = Inl TypeError"
  by (auto simp: restaurants_of_result_def exc_bind_def py_contains_def py_getitem_def)

lemma restaurants_of_result_no_data:
  "map_of d ''error'' = None \<Longrightarrow> map_of d ''data'' = None
   \<Longrightarrow> restaurants_of_result R (JObj d) = Inr unexpected_format"
  by (simp add: restaurants_of_result_def exc_bind_def py_contains_def)

lemma restaurants_of_result_no_nested_list:
  "map_of d ''error'' = None \<Longrightarrow> map_of d ''data'' = Some (JObj d1)
   \<Longrightarrow> \<forall>xs. map_of d1 ''data'' \<noteq> Some (JArr xs)
   \<Longrightarrow> restaurants_of_result R (JObj d) = Inr unexpected_format"
  by (cases "map_of d1 ''data''")
     (auto simp: restaurants_of_result_def exc_bind_def py_contains_def py_getitem_def
       split: json.splits)

lemma call_rapidapi_request_cases:
  "call_rapidapi_request cfg client endpoint params =
     Inr (case client (''https://'' @ HOST cfg @ endpoint)
                 [(''X-RapidAPI-Key'', KEY cfg), (''X-RapidAPI-Host'', HOST cfg)] params of
            Inl m \<Rightarrow> JObj [(''error'', JStr m)]
          | Inr r \<Rightarrow>
              if 200 \<le> status_code r \<and> status_code r \<le> 299
              then (case body_json r of
                      Inl m \<Rightarrow> JObj [(''error'', JStr m)]
                    | Inr v \<Rightarrow> v)
              else JObj [(''error'', JStr (status_message r))])"
  by (simp add: call_rapidapi_request_def request_body_def exc_bind_def client_get_def
      raise_for_status_def response_json_def split: sum.splits)

section \<open>The claims\<close>

subsection \<open>C1: the gateway never raises\<close>

text \<open>
  Claim C1. Every invocation of \<^verbatim>\<open>call_rapidapi_request\<close> returns a value and raises
  nothing: a transport failure, a status outside 200..299 and a JSON decoding failure each
  give the dict \<^verbatim>\<open>{"error": <message>}\<close> with the message of the exception, and a
  successful request gives the decoded JSON body.
\<close>

theorem call_rapidapi_request_never_raises:
  "(\<exists>v. call_rapidapi_request cfg client endpoint params = Inr v) \<and>
   call_rapidapi_request cfg client endpoint params =
     Inr (case client (''https://'' @ HOST cfg @ endpoint)
                 [(''X-RapidAPI-Key'', KEY cfg), (''X-RapidAPI-Host'', HOST cfg)] params of
            Inl m \<Rightarrow> JObj [(''error'', JStr m)]
          | Inr r \<Rightarrow>
              if 200 \<le> status_code r \<and> status_code r \<le> 299
              then (case body_json r of
                      Inl m \<Rightarrow> JObj [(''error'', JStr m)]
                    | Inr v \<Rightarrow> v)
              else JObj [(''error'', JStr (status_message r))])"
  by (simp add: call_rapidapi_request_cases)

subsection \<open>C2: one block per location, in order\<close>

text \<open>
  Claim C2. When the gateway result is a dict without an \<^verbatim>\<open>"error"\<close> key whose
  \<^verbatim>\<open>"data"\<close> key holds a list of \<open>N \<ge> 1\<close> location objects, \<^verbatim>\<open>search_locations\<close>
  returns the \<open>N\<close> four-line blocks of the entries (name, location id, coordinates, place
  type), in the order of the list, joined by the separator; the block of an entry without
  a \<^verbatim>\<open>longitude\<close> key shows \<^verbatim>\<open>N/A\<close> after the latitude.
\<close>

theorem search_locations_blocks:
  assumes "call_rapidapi_request cfg client ''/api/v1/restaurant/searchLocation''
             (Some [(''query'', query)]) = Inr (JObj d)"
    and "map_of d ''error'' = None"
    and "map_of d ''data'' = Some (JArr xs)"
    and "xs \<noteq> []"
    and "list_all is_object xs"
  shows "search_locations R cfg client query
           = Inr (py_join block_sep (map (location_block R) xs))
         \<and> length (map (location_block R) xs) = length xs
         \<and> map (location_info R) xs = map (\<lambda>x. Inr (location_block R x)) xs
         \<and> (\<forall>e. map_of e ''longitude'' = None \<longrightarrow>
               location_block R (JObj e) =
                 ''Name: '' @ field_text R (JObj e) ''localizedName'' ''Unknown'' @ nl
                 @ ''Location Id: '' @ field_text R (JObj e) ''locationId'' ''Unknown'' @ nl
                 @ ''Coordinates: '' @ field_text R (JObj e) ''latitude'' ''N/A''
                     @ '', N/A'' @ nl
                 @ ''PlaceType: '' @ field_text R (JObj e) ''placeType'' ''Unknown'' @ nl)"
proof -
  have "search_locations R cfg client query = locations_of_result R (JObj d)"
    using assms(1) by (rule search_locations_result)
  then have tool: "search_locations R cfg client query
      = Inr (py_join block_sep (map (location_block R) xs))"
    using assms(2-5) by (simp add: locations_of_result_list)
  have each: "map (location_info R) xs = map (\<lambda>x. Inr (location_block R x)) xs"
  proof (rule map_cong [OF refl])
    fix x assume "x \<in> set xs"
    with assms(5) have "is_object x" by (simp add: list_all_iff)
    then obtain e where "x = JObj e" by (cases x) (simp_all add: is_object_def)
    then show "location_info R x = Inr (location_block R x)"
      by (simp add: location_info_object)
  qed
  have lon: "\<forall>e. map_of e ''longitude'' = None \<longrightarrow>
               location_block R (JObj e) =
                 ''Name: '' @ field_text R (JObj e) ''localizedName'' ''Unknown'' @ nl
                 @ ''Location Id: '' @ field_text R (JObj e) ''locationId'' ''Unknown'' @ nl
                 @ ''Coordinates: '' @ field_text R (JObj e) ''latitude'' ''N/A''
                     @ '', N/A'' @ nl
                 @ ''PlaceType: '' @ field_text R (JObj e) ''placeType'' ''Unknown'' @ nl"
    by (simp add: location_block_def field_text_def obj_items_def)
  from tool each lon show ?thesis by simp
qed

text \<open>
  The example of the specification: the query \<^verbatim>\<open>"Paris"\<close> answered with two entries, the
  second without a longitude.
\<close>

theorem search_locations_blocks_witness:
  "search_locations (\<lambda>v. case v of JFloat s \<Rightarrow> s | _ \<Rightarrow> [])
     \<lparr>KEY = ''k'', HOST = ''booking-com15.p.rapidapi.com''\<rparr>
     (\<lambda>url headers params. Inr (Response 200 ''OK'' (Inr (JObj
        [(''status'', JBool True),
         (''data'', JArr
            [JObj [(''localizedName'', JStr ''Paris''), (''locationId'', JStr ''187147''),
                   (''latitude'', JFloat ''48.857037''), (''longitude'', JFloat ''2.349401''),
                   (''placeType'', JStr ''CITY'')],
             JObj [(''localizedName'', JStr ''Paris Las Vegas''), (''locationId'', JInt 91762),
                   (''latitude'', JFloat ''36.11249''),
                   (''placeType'', JStr ''ACCOMMODATION'')]])]))))
     ''Paris''
   = Inr (''Name: Paris'' @ nl @ ''Location Id: 187147'' @ nl
          @ ''Coordinates: 48.857037, 2.349401'' @ nl @ ''PlaceType: CITY'' @ nl
          @ nl @ ''---'' @ nl
          @ ''Name: Paris Las Vegas'' @ nl @ ''Location Id: 91762'' @ nl
          @ ''Coordinates: 36.11249, N/A'' @ nl @ ''PlaceType: ACCOMMODATION'' @ nl)"
proof -
  let ?R = "\<lambda>v::string json. case v of JFloat s \<Rightarrow> s | _ \<Rightarrow> []"
  let ?xs = "[JObj [(''localizedName'', JStr ''Paris''), (''locationId'', JStr ''187147''),
                   (''latitude'', JFloat ''48.857037''), (''longitude'', JFloat ''2.349401''),
                   (''placeType'', JStr ''CITY'')],
             JObj [(''localizedName'', JStr ''Paris Las Vegas''), (''locationId'', JInt 91762),
                   (''latitude'', JFloat ''36.11249''),
                   (''placeType'', JStr ''ACCOMMODATION'')]] :: string json list"
  let ?d = "[(''status'', JBool True), (''data'', JArr ?xs)]"
  let ?client = "\<lambda>(url::string) (headers::(string \<times> string) list)
      (params::(string \<times> string) list option).
      (Inr (Response 200 ''OK'' (Inr (JObj ?d))) :: string + string response)"
  let ?cfg = "\<lparr>KEY = ''k'', HOST = ''booking-com15.p.rapidapi.com''\<rparr>"
  have gw: "call_rapidapi_request ?cfg ?client ''/api/v1/restaurant/searchLocation''
             (Some [(''query'', ''Paris'')]) = Inr (JObj ?d)"
    by (simp add: call_rapidapi_request_cases)
  have no_error: "map_of ?d ''error'' = None" by simp
  have data: "map_of ?d ''data'' = Some (JArr ?xs)" by simp
  have nonempty: "?xs \<noteq> []" by simp
  have objects: "list_all is_object ?xs" by (simp add: is_object_def)
  have n: "str_int 91762 = ''91762''"
    by (simp add: str_int_def str_nat.simps digit_char_def)
  have b1: "location_block ?R (JObj [(''localizedName'', JStr ''Paris''), (''locationId'', JStr ''187147''),
                   (''latitude'', JFloat ''48.857037''), (''longitude'', JFloat ''2.349401''),
                   (''placeType'', JStr ''CITY'')]) =
      ''Name: Paris'' @ nl @ ''Location Id: 187147'' @ nl
          @ ''Coordinates: 48.857037, 2.349401'' @ nl @ ''PlaceType: CITY'' @ nl"
    by (simp add: location_block_def field_text_def obj_items_def py_str_def)
  have b2: "location_block ?R (JObj [(''localizedName'', JStr ''Paris Las Vegas''), (''locationId'', JInt 91762),
                   (''latitude'', JFloat ''36.11249''),
                   (''placeType'', JStr ''ACCOMMODATION'')]) =
      ''Name: Paris Las Vegas'' @ nl @ ''Location Id: 91762'' @ nl
          @ ''Coordinates: 36.11249, N/A'' @ nl @ ''PlaceType: ACCOMMODATION'' @ nl"
    by (simp add: location_block_def field_text_def obj_items_def py_str_def n)
  have "search_locations ?R ?cfg ?client ''Paris''
          = Inr (py_join block_sep (map (location_block ?R) ?xs))"
    using search_locations_blocks [OF gw no_error data nonempty objects] by (rule conjunct1)
  then show ?thesis
    unfolding list.map b1 b2 py_join.simps block_sep_def by simp
qed

subsection \<open>C3: at most ten restaurants\<close>

text \<open>
  Claim C3. When the gateway result is a dict without an \<^verbatim>\<open>"error"\<close> key whose
  \<^verbatim>\<open>"data"\<close> holds a dict whose \<^verbatim>\<open>"data"\<close> holds a list of more than ten restaurant
  objects, \<^verbatim>\<open>get_restaurants\<close> formats the first ten entries, in order: exactly ten
  blocks, joined by the separator.
\<close>

theorem get_restaurants_first_ten:
  assumes "call_rapidapi_request cfg client ''/api/v1/restaurant/searchRestaurants''
             (Some [(''locationId'', location_id)]) = Inr (JObj d)"
    and "map_of d ''error'' = None"
    and "map_of d ''data'' = Some (JObj d1)"
    and "map_of d1 ''data'' = Some (JArr xs)"
    and "10 < length xs"
    and "list_all is_object xs"
  shows "get_restaurants R cfg client location_id
           = Inr (py_join block_sep (map (restaurant_block R) (take 10 xs)))
         \<and> length (map (restaurant_block R) (take 10 xs)) = 10
         \<and> map (restaurant_info R) (take 10 xs)
             = map (\<lambda>x. Inr (restaurant_block R x)) (take 10 xs)"
proof -
  from assms(5) have nonempty: "xs \<noteq> []" by auto
  from assms(6) have objects: "list_all is_object (take 10 xs)"
    by (auto simp: list_all_iff dest: in_set_takeD)
  have "get_restaurants R cfg client location_id = restaurants_of_result R (JObj d)"
    using assms(1) by (rule get_restaurants_result)
  then have tool: "get_restaurants R cfg client location_id
      = Inr (py_join block_sep (map (restaurant_block R) (take 10 xs)))"
    using assms(2-4) nonempty objects by (simp add: restaurants_of_result_list)
  have len: "length (map (restaurant_block R) (take 10 xs)) = 10"
    using assms(5) by simp
  have each: "map (restaurant_info R) (take 10 xs)
      = map (\<lambda>x. Inr (restaurant_block R x)) (take 10 xs)"
  proof (rule map_cong [OF refl])
    fix x assume "x \<in> set (take 10 xs)"
    with objects have "is_object x" by (simp add: list_all_iff)
    then obtain e where "x = JObj e" by (cases x) (simp_all add: is_object_def)
    then show "restaurant_info R x = Inr (restaurant_block R x)"
      by (simp add: restaurant_info_object)
  qed
  from tool len each show ?thesis by simp
qed

text \<open>
  The example of the specification: \<^verbatim>\<open>get_restaurants("123")\<close> answered with twelve
  entries gives the blocks of the first ten.
\<close>

theorem get_restaurants_first_ten_witness:
  "get_restaurants (\<lambda>v::unit json. [])
     \<lparr>KEY = ''k'', HOST = ''booking-com15.p.rapidapi.com''\<rparr>
     (\<lambda>url headers params. Inr (Response 200 ''OK'' (Inr (JObj
        [(''status'', JBool True),
         (''data'', JObj [(''data'', JArr (map (\<lambda>n. JObj [(''name'', JStr n)])
            [''a'', ''b'', ''c'', ''d'', ''e'', ''f'', ''g'', ''h'', ''i'', ''j'', ''k'',
             ''l'']))])]))))
     ''123''
   = Inr (py_join block_sep (map (restaurant_block (\<lambda>v. []))
       (map (\<lambda>n. JObj [(''name'', JStr n)] :: unit json)
          [''a'', ''b'', ''c'', ''d'', ''e'', ''f'', ''g'', ''h'', ''i'', ''j''])))"
proof -
  let ?R = "\<lambda>v::unit json. []::string"
  let ?xs = "map (\<lambda>n. JObj [(''name'', JStr n)])
            [''a'', ''b'', ''c'', ''d'', ''e'', ''f'', ''g'', ''h'', ''i'', ''j'', ''k'',
             ''l''] :: unit json list"
  let ?d1 = "[(''data'', JArr ?xs)]"
  let ?d = "[(''status'', JBool True), (''data'', JObj ?d1)]"
  let ?client = "\<lambda>(url::string) (headers::(string \<times> string) list)
      (params::(string \<times> string) list option).
      (Inr (Response 200 ''OK'' (Inr (JObj ?d))) :: string + unit response)"
  let ?cfg = "\<lparr>KEY = ''k'', HOST = ''booking-com15.p.rapidapi.com''\<rparr>"
  have gw: "call_rapidapi_request ?cfg ?client ''/api/v1/restaurant/searchRestaurants''
             (Some [(''locationId'', ''123'')]) = Inr (JObj ?d)"
    by (simp add: call_rapidapi_request_cases)
  have no_error: "map_of ?d ''error'' = None" by simp
  have data: "map_of ?d ''data'' = Some (JObj ?d1)" by simp
  have nested: "map_of ?d1 ''data'' = Some (JArr ?xs)" by simp
  have more: "10 < length ?xs" by simp
  have objects: "list_all is_object ?xs" by (simp add: is_object_def)
  have "get_restaurants ?R ?cfg ?client ''123''
          = Inr (py_join block_sep (map (restaurant_block ?R) (take 10 ?xs)))"
    using get_restaurants_first_ten [OF gw no_error data nested more objects]
    by (rule conjunct1)
  then show ?thesis by simp
qed

subsection \<open>C4: a response of another shape\<close>

text \<open>
  Where the "unexpected format" sentence is returned: by \<^verbatim>\<open>search_locations\<close> for every dict
  without \<^verbatim>\<open>"error"\<close> whose \<^verbatim>\<open>"data"\<close> is absent or not a list; by
  \<^verbatim>\<open>get_restaurants\<close> when \<^verbatim>\<open>"data"\<close> is absent, or is a dict whose own \<^verbatim>\<open>"data"\<close>
  is absent or not a list.
\<close>

lemma search_locations_unexpected_format:
  assumes "call_rapidapi_request cfg client ''/api/v1/restaurant/searchLocation''
             (Some [(''query'', query)]) = Inr (JObj d)"
    and "map_of d ''error'' = None"
    and "\<forall>xs. map_of d ''data'' \<noteq> Some (JArr xs)"
  shows "search_locations R cfg client query = Inr ''Unexpected response format from the API.''"
  using assms
  by (simp add: search_locations_result locations_of_result_no_list unexpected_format_def)

lemma get_restaurants_unexpected_format:
  assumes "call_rapidapi_request cfg client ''/api/v1/restaurant/searchRestaurants''
             (Some [(''locationId'', location_id)]) = Inr (JObj d)"
    and "map_of d ''error'' = None"
    and "map_of d ''data'' = None
         \<or> (\<exists>d1. map_of d ''data'' = Some (JObj d1)
               \<and> (\<forall>xs. map_of d1 ''data'' \<noteq> Some (JArr xs)))"
  shows "get_restaurants R cfg client location_id
           = Inr ''Unexpected response format from the API.''"
  using assms
  by (auto simp: get_restaurants_result restaurants_of_result_no_data
      restaurants_of_result_no_nested_list unexpected_format_def)

text \<open>
  Claim C4 says that every dict without \<^verbatim>\<open>"error"\<close> that lacks the expected list gives the
  "unexpected format" sentence and never an exception. \<^verbatim>\<open>get_restaurants\<close> tests
  \<^verbatim>\<open>"data" in result["data"]\<close> without testing that \<^verbatim>\<open>result["data"]\<close> is a dict: on the
  body \<^verbatim>\<open>{"status": false, "message": "...", "data": null}\<close> the membership test raises
  \<^verbatim>\<open>TypeError\<close>, and on a \<^verbatim>\<open>"data"\<close> string that contains the text \<^verbatim>\<open>data\<close> the
  subscript that follows raises it.
\<close>

theorem get_restaurants_data_not_dict_raises:
  "get_restaurants R cfg
     (\<lambda>url headers params. Inr (Response 200 ''OK'' (Inr (JObj
        [(''status'', JBool False), (''message'', JStr ''Something went wrong''),
         (''data'', JNull)]))))
     location_id = Inl TypeError
   \<and> get_restaurants R cfg
     (\<lambda>url headers params. Inr (Response 200 ''OK'' (Inr (JObj
        [(''status'', JBool False), (''data'', JStr ''no data'')]))))
     location_id = Inl TypeError"
  by (simp add: get_restaurants_def call_rapidapi_request_cases exc_bind_def
      restaurants_of_result_def py_contains_def py_getitem_def)

subsection \<open>C5: the error marker\<close>

text \<open>
  Claim C5. When the gateway result is a dict with an \<^verbatim>\<open>"error"\<close> key, each tool returns its
  fixed phrase followed by the rendering of the value under that key, which for a string
  (the message the gateway stores) is the string itself; nothing else of the dict is read.
\<close>

theorem tools_error_marker:
  "(call_rapidapi_request cfg client ''/api/v1/restaurant/searchLocation''
        (Some [(''query'', query)]) = Inr (JObj d)
      \<and> map_of d ''error'' = Some v
    \<longrightarrow> search_locations R cfg client query
          = Inr (''Error fetching locations: '' @ py_str R v))
   \<and> (call_rapidapi_request cfg client' ''/api/v1/restaurant/searchRestaurants''
        (Some [(''locationId'', location_id)]) = Inr (JObj d')
      \<and> map_of d' ''error'' = Some v'
    \<longrightarrow> get_restaurants R cfg client' location_id
          = Inr (''Error fetching restaurants: '' @ py_str R v'))
   \<and> py_str R (JStr m) = m"
  by (simp add: search_locations_result get_restaurants_result locations_of_result_error
      restaurants_of_result_error py_str_def)

theorem tools_error_marker_witness:
  "search_locations (\<lambda>v::unit json. [])
     \<lparr>KEY = ''k'', HOST = ''booking-com15.p.rapidapi.com''\<rparr>
     (\<lambda>url headers params. Inl ''All connection attempts failed'') ''Paris''
     = Inr ''Error fetching locations: All connection attempts failed''
   \<and> get_restaurants (\<lambda>v::unit json. [])
     \<lparr>KEY = ''k'', HOST = ''booking-com15.p.rapidapi.com''\<rparr>
     (\<lambda>url headers params. Inl ''All connection attempts failed'') ''123''
     = Inr ''Error fetching restaurants: All connection attempts failed''"
proof -
  let ?R = "\<lambda>v::unit json. []::string"
  let ?cfg = "\<lparr>KEY = ''k'', HOST = ''booking-com15.p.rapidapi.com''\<rparr>"
  let ?client = "\<lambda>(url::string) (headers::(string \<times> string) list)
      (params::(string \<times> string) list option).
      (Inl ''All connection attempts failed'' :: string + unit response)"
  let ?d = "[(''error'', JStr ''All connection attempts failed'')] :: (string \<times> unit json) list"
  have gw1: "call_rapidapi_request ?cfg ?client ''/api/v1/restaurant/searchLocation''
             (Some [(''query'', ''Paris'')]) = Inr (JObj ?d)"
    by (simp add: call_rapidapi_request_cases)
  have gw2: "call_rapidapi_request ?cfg ?client ''/api/v1/restaurant/searchRestaurants''
             (Some [(''locationId'', ''123'')]) = Inr (JObj ?d)"
    by (simp add: call_rapidapi_request_cases)
  have err: "map_of ?d ''error'' = Some (JStr ''All connection attempts failed'')" by simp
  note inst = tools_error_marker [of ?cfg ?client "''Paris''" ?d
      "JStr ''All connection attempts failed''" ?R ?client "''123''" ?d
      "JStr ''All connection attempts failed''" "''All connection attempts failed''"]
  from inst gw1 err have
    "search_locations ?R ?cfg ?client ''Paris''
       = Inr (''Error fetching locations: '' @ py_str ?R (JStr ''All connection attempts failed''))"
    by blast
  moreover from inst gw2 err have
    "get_restaurants ?R ?cfg ?client ''123''
       = Inr (''Error fetching restaurants: '' @ py_str ?R (JStr ''All connection attempts failed''))"
    by blast
  moreover from inst have "py_str ?R (JStr ''All connection attempts failed'')
      = ''All connection attempts failed''"
    by blast
  ultimately show ?thesis by simp
qed

subsection \<open>C6: an empty list\<close>

text \<open>
  Claim C6. When the expected list is present and empty, the tool returns its fixed "no
  results" sentence: \<^verbatim>\<open>search_locations\<close> for \<^verbatim>\<open>"data": []\<close>, \<^verbatim>\<open>get_restaurants\<close> for
  \<^verbatim>\<open>"data": {"data": []}\<close>.
\<close>

theorem empty_list_no_results:
  "(call_rapidapi_request cfg client ''/api/v1/restaurant/searchLocation''
        (Some [(''query'', query)]) = Inr (JObj d)
      \<and> map_of d ''error'' = None \<and> map_of d ''data'' = Some (JArr [])
    \<longrightarrow> search_locations R cfg client query
          = Inr ''No locations found matching your query.'')
   \<and> (call_rapidapi_request cfg client' ''/api/v1/restaurant/searchRestaurants''
        (Some [(''locationId'', location_id)]) = Inr (JObj d')
      \<and> map_of d' ''error'' = None \<and> map_of d' ''data'' = Some (JObj d1)
      \<and> map_of d1 ''data'' = Some (JArr [])
    \<longrightarrow> get_restaurants R cfg client' location_id
          = Inr ''No Restaurants found for this location and dates.'')"
  by (simp add: search_locations_result get_restaurants_result locations_of_result_list
      restaurants_of_result_list)

theorem empty_list_no_results_witness:
  "search_locations (\<lambda>v::unit json. [])
     \<lparr>KEY = ''k'', HOST = ''booking-com15.p.rapidapi.com''\<rparr>
     (\<lambda>url headers params. Inr (Response 200 ''OK'' (Inr (JObj
        [(''status'', JBool True), (''data'', JArr [])])))) ''Atlantis''
     = Inr ''No locations found matching your query.''
   \<and> get_restaurants (\<lambda>v::unit json. [])
     \<lparr>KEY = ''k'', HOST = ''booking-com15.p.rapidapi.com''\<rparr>
     (\<lambda>url headers params. Inr (Response 200 ''OK'' (Inr (JObj
        [(''status'', JBool True), (''data'', JObj [(''data'', JArr [])])])))) ''0''
     = Inr ''No Restaurants found for this location and dates.''"
proof -
  let ?R = "\<lambda>v::unit json. []::string"
  let ?cfg = "\<lparr>KEY = ''k'', HOST = ''booking-com15.p.rapidapi.com''\<rparr>"
  let ?d = "[(''status'', JBool True), (''data'', JArr [])] :: (string \<times> unit json) list"
  let ?d1 = "[(''data'', JArr [])] :: (string \<times> unit json) list"
  let ?d' = "[(''status'', JBool True), (''data'', JObj ?d1)] :: (string \<times> unit json) list"
  let ?client = "\<lambda>(url::string) (headers::(string \<times> string) list)
      (params::(string \<times> string) list option).
      (Inr (Response 200 ''OK'' (Inr (JObj ?d))) :: string + unit response)"
  let ?client' = "\<lambda>(url::string) (headers::(string \<times> string) list)
      (params::(string \<times> string) list option).
      (Inr (Response 200 ''OK'' (Inr (JObj ?d'))) :: string + unit response)"
  have gw1: "call_rapidapi_request ?cfg ?client ''/api/v1/restaurant/searchLocation''
             (Some [(''query'', ''Atlantis'')]) = Inr (JObj ?d)"
    by (simp add: call_rapidapi_request_cases)
  have gw2: "call_rapidapi_request ?cfg ?client' ''/api/v1/restaurant/searchRestaurants''
             (Some [(''locationId'', ''0'')]) = Inr (JObj ?d')"
    by (simp add: call_rapidapi_request_cases)
  have h1: "map_of ?d ''error'' = None \<and> map_of ?d ''data'' = Some (JArr [])" by simp
  have h2: "map_of ?d' ''error'' = None \<and> map_of ?d' ''data'' = Some (JObj ?d1)
      \<and> map_of ?d1 ''data'' = Some (JArr [])" by simp
  note inst = empty_list_no_results [of ?cfg ?client "''Atlantis''" ?d ?R ?client' "''0''" ?d' ?d1]
  from inst gw1 h1 have "search_locations ?R ?cfg ?client ''Atlantis''
      = Inr ''No locations found matching your query.''"
    by blast
  moreover from inst gw2 h2 have "get_restaurants ?R ?cfg ?client' ''0''
      = Inr ''No Restaurants found for this location and dates.''"
    by blast
  ultimately show ?thesis by simp
qed

subsection \<open>C7: absent fields\<close>

text \<open>
  Claim C7. For an entry that is a JSON object, formatting never fails and every line of the
  block is present: the text of a field whose key is absent from the entry is the
  placeholder (\<^verbatim>\<open>Unknown\<close>, or \<^verbatim>\<open>N/A\<close> for latitude and longitude), as in the blocks
  of the empty object. A list of objects, whatever keys they lack, makes neither tool raise.
\<close>

theorem absent_field_placeholder:
  "location_info R (JObj e) = Inr (location_block R (JObj e))
   \<and> restaurant_fields R (JObj e) = Inr (restaurant_text R (JObj e))
   \<and> (map_of e k = None \<longrightarrow> field_text R (JObj e) k p = p)
   \<and> location_info R (JObj []) =
         Inr (''Name: Unknown'' @ nl @ ''Location Id: Unknown'' @ nl
              @ ''Coordinates: N/A, N/A'' @ nl @ ''PlaceType: Unknown'' @ nl)
   \<and> restaurant_fields R (JObj []) =
         Inr (''Name: Unknown'' @ nl @ ''Average Rating: Unknown'' @ nl
              @ ''User Review Count: Unknown'' @ nl @ ''Menu Url: Unknown'' @ nl
              @ ''City Name GeoName: Unknown'' @ nl @ ''Status: Unknown'' @ nl
              @ ''Premium: Unknown'' @ nl)
   \<and> (call_rapidapi_request cfg client ''/api/v1/restaurant/searchLocation''
          (Some [(''query'', query)]) = Inr (JObj d)
        \<and> map_of d ''error'' = None \<and> map_of d ''data'' = Some (JArr xs)
        \<and> list_all is_object xs
      \<longrightarrow> (\<exists>s. search_locations R cfg client query = Inr s))
   \<and> (call_rapidapi_request cfg client' ''/api/v1/restaurant/searchRestaurants''
          (Some [(''locationId'', location_id)]) = Inr (JObj d')
        \<and> map_of d' ''error'' = None \<and> map_of d' ''data'' = Some (JObj d1)
        \<and> map_of d1 ''data'' = Some (JArr ys) \<and> list_all is_object ys
      \<longrightarrow> (\<exists>s. get_restaurants R cfg client' location_id = Inr s))"
proof -
  have absent: "map_of e k = None \<longrightarrow> field_text R (JObj e) k p = p"
    by (simp add: field_text_def obj_items_def)
  have loc_empty: "location_info R (JObj []) =
         Inr (''Name: Unknown'' @ nl @ ''Location Id: Unknown'' @ nl
              @ ''Coordinates: N/A, N/A'' @ nl @ ''PlaceType: Unknown'' @ nl)"
    by (simp add: location_info_object location_block_def field_text_def obj_items_def)
  have rest_empty: "restaurant_fields R (JObj []) =
         Inr (''Name: Unknown'' @ nl @ ''Average Rating: Unknown'' @ nl
              @ ''User Review Count: Unknown'' @ nl @ ''Menu Url: Unknown'' @ nl
              @ ''City Name GeoName: Unknown'' @ nl @ ''Status: Unknown'' @ nl
              @ ''Premium: Unknown'' @ nl)"
    by (simp add: restaurant_fields_object restaurant_text_def field_text_def obj_items_def)
  have tool1: "call_rapidapi_request cfg client ''/api/v1/restaurant/searchLocation''
          (Some [(''query'', query)]) = Inr (JObj d)
        \<and> map_of d ''error'' = None \<and> map_of d ''data'' = Some (JArr xs)
        \<and> list_all is_object xs
      \<longrightarrow> (\<exists>s. search_locations R cfg client query = Inr s)"
    by (simp add: search_locations_result locations_of_result_list)
  have tool2: "call_rapidapi_request cfg client' ''/api/v1/restaurant/searchRestaurants''
          (Some [(''locationId'', location_id)]) = Inr (JObj d')
        \<and> map_of d' ''error'' = None \<and> map_of d' ''data'' = Some (JObj d1)
        \<and> map_of d1 ''data'' = Some (JArr ys) \<and> list_all is_object ys
      \<longrightarrow> (\<exists>s. get_restaurants R cfg client' location_id = Inr s)"
  proof (intro impI, elim conjE)
    assume gw: "call_rapidapi_request cfg client' ''/api/v1/restaurant/searchRestaurants''
          (Some [(''locationId'', location_id)]) = Inr (JObj d')"
      and shape: "map_of d' ''error'' = None" "map_of d' ''data'' = Some (JObj d1)"
        "map_of d1 ''data'' = Some (JArr ys)"
      and objs: "list_all is_object ys"
    from objs have "list_all is_object (take 10 ys)"
      by (auto simp: list_all_iff dest: in_set_takeD)
    with gw shape show "\<exists>s. get_restaurants R cfg client' location_id = Inr s"
      by (simp add: get_restaurants_result restaurants_of_result_list)
  qed
  have loc: "location_info R (JObj e) = Inr (location_block R (JObj e))"
    by (rule location_info_object)
  have rest: "restaurant_fields R (JObj e) = Inr (restaurant_text R (JObj e))"
    by (rule restaurant_fields_object)
  from loc rest absent loc_empty rest_empty tool1 tool2 show ?thesis
    by (intro conjI)
qed

theorem absent_field_placeholder_witness:
  "field_text (\<lambda>v::unit json. []) (JObj [(''localizedName'', JStr ''Paris'')])
       ''longitude'' ''N/A'' = ''N/A''
   \<and> (\<exists>s. search_locations (\<lambda>v::unit json. [])
        \<lparr>KEY = ''k'', HOST = ''booking-com15.p.rapidapi.com''\<rparr>
        (\<lambda>url headers params. Inr (Response 200 ''OK'' (Inr (JObj
           [(''data'', JArr [JObj [(''localizedName'', JStr ''Paris'')], JObj []])]))))
        ''Paris'' = Inr s)
   \<and> (\<exists>s. get_restaurants (\<lambda>v::unit json. [])
        \<lparr>KEY = ''k'', HOST = ''booking-com15.p.rapidapi.com''\<rparr>
        (\<lambda>url headers params. Inr (Response 200 ''OK'' (Inr (JObj
           [(''data'', JObj [(''data'', JArr [JObj [(''name'', JStr ''Chez Nous'')],
              JObj []])])]))))
        ''123'' = Inr s)"
proof -
  let ?R = "\<lambda>v::unit json. []::string"
  let ?cfg = "\<lparr>KEY = ''k'', HOST = ''booking-com15.p.rapidapi.com''\<rparr>"
  let ?e = "[(''localizedName'', JStr ''Paris'')] :: (string \<times> unit json) list"
  let ?xs = "[JObj ?e, JObj []] :: unit json list"
  let ?d = "[(''data'', JArr ?xs)]"
  let ?ys = "[JObj [(''name'', JStr ''Chez Nous'')], JObj []] :: unit json list"
  let ?d1 = "[(''data'', JArr ?ys)]"
  let ?d' = "[(''data'', JObj ?d1)]"
  let ?client = "\<lambda>(url::string) (headers::(string \<times> string) list)
      (params::(string \<times> string) list option).
      (Inr (Response 200 ''OK'' (Inr (JObj ?d))) :: string + unit response)"
  let ?client' = "\<lambda>(url::string) (headers::(string \<times> string) list)
      (params::(string \<times> string) list option).
      (Inr (Response 200 ''OK'' (Inr (JObj ?d'))) :: string + unit response)"
  have gw1: "call_rapidapi_request ?cfg ?client ''/api/v1/restaurant/searchLocation''
             (Some [(''query'', ''Paris'')]) = Inr (JObj ?d)"
    by (simp add: call_rapidapi_request_cases)
  have gw2: "call_rapidapi_request ?cfg ?client' ''/api/v1/restaurant/searchRestaurants''
             (Some [(''locationId'', ''123'')]) = Inr (JObj ?d')"
    by (simp add: call_rapidapi_request_cases)
  have h0: "map_of ?e ''longitude'' = None" by simp
  have h1: "map_of ?d ''error'' = None \<and> map_of ?d ''data'' = Some (JArr ?xs)
      \<and> list_all is_object ?xs"
    by (simp add: is_object_def)
  have h2: "map_of ?d' ''error'' = None \<and> map_of ?d' ''data'' = Some (JObj ?d1)
      \<and> map_of ?d1 ''data'' = Some (JArr ?ys) \<and> list_all is_object ?ys"
    by (simp add: is_object_def)
  note inst = absent_field_placeholder [of ?R ?e "''longitude''" "''N/A''" ?cfg ?client
      "''Paris''" ?d ?xs ?client' "''123''" ?d' ?d1 ?ys]
  from inst h0 have "field_text ?R (JObj ?e) ''longitude'' ''N/A'' = ''N/A''"
    by blast
  moreover from inst gw1 h1 have
    "\<exists>s. search_locations ?R ?cfg ?client ''Paris'' = Inr s"
    by blast
  moreover from inst gw2 h2 have
    "\<exists>s. get_restaurants ?R ?cfg ?client' ''123'' = Inr s"
    by blast
  ultimately show ?thesis by blast
qed

subsection \<open>C8: the block repeated under the Room label\<close>

text \<open>
  Claim C8. The block \<^verbatim>\<open>get_restaurants\<close> produces for an entry holds the seven-field text
  of the entry twice: the text itself, then \<^verbatim>\<open>Room: \<close> followed by the same text and a
  newline, so that the block is twice as long as the text plus the seven characters of the
  label and the newline.
\<close>

theorem restaurant_info_repeats_fields:
  "restaurant_fields R (JObj e) = Inr (restaurant_text R (JObj e))
   \<and> restaurant_info R (JObj e)
       = Inr (restaurant_text R (JObj e) @ ''Room: '' @ restaurant_text R (JObj e) @ nl)
   \<and> length (restaurant_text R (JObj e) @ ''Room: '' @ restaurant_text R (JObj e) @ nl)
       = 2 * length (restaurant_text R (JObj e)) + 7"
  by (simp add: restaurant_fields_object restaurant_info_object restaurant_block_def nl_def)

subsection \<open>C9: an error key in a successful response\<close>

text \<open>
  Claim C9. The tools take the error branch whenever the gateway result is a dict with an
  \<^verbatim>\<open>"error"\<close> key, whether or not the request failed: a response with a status in
  200..299 whose JSON body is a dict with an \<^verbatim>\<open>"error"\<close> key gives, in both tools, the same
  string as a transport failure and as a status outside 200..299 whose message is the
  rendering of the value under that key.
\<close>

theorem error_key_indistinguishable:
  assumes "\<And>url headers params. client_ok url headers params = Inr r"
    and "200 \<le> status_code r" and "status_code r \<le> 299"
    and "body_json r = Inr (JObj d)"
    and "map_of d ''error'' = Some v"
    and "\<And>url headers params. client_down url headers params = Inl (py_str R v)"
    and "\<And>url headers params. client_http url headers params = Inr r'"
    and "status_code r' < 200 \<or> 299 < status_code r'"
    and "status_message r' = py_str R v"
  shows "search_locations R cfg client_ok query
           = Inr (''Error fetching locations: '' @ py_str R v)
         \<and> search_locations R cfg client_down query
             = search_locations R cfg client_ok query
         \<and> search_locations R cfg client_http query
             = search_locations R cfg client_ok query
         \<and> get_restaurants R cfg client_ok location_id
             = Inr (''Error fetching restaurants: '' @ py_str R v)
         \<and> get_restaurants R cfg client_down location_id
             = get_restaurants R cfg client_ok location_id
         \<and> get_restaurants R cfg client_http location_id
             = get_restaurants R cfg client_ok location_id"
proof -
  have ok: "call_rapidapi_request cfg client_ok endpoint params = Inr (JObj d)"
    for endpoint params
    using assms(1-4) by (simp add: call_rapidapi_request_cases)
  have down: "call_rapidapi_request cfg client_down endpoint params
      = Inr (JObj [(''error'', JStr (py_str R v))])" for endpoint params
    using assms(6) by (simp add: call_rapidapi_request_cases)
  have http: "call_rapidapi_request cfg client_http endpoint params
      = Inr (JObj [(''error'', JStr (py_str R v))])" for endpoint params
    using assms(7-9) by (auto simp: call_rapidapi_request_cases)
  have marker: "map_of [(''error'', JStr (py_str R v))] ''error'' = Some (JStr (py_str R v))"
    by simp
  have same: "py_str R (JStr (py_str R v)) = py_str R v"
    by (simp add: py_str_def)
  have s_ok: "search_locations R cfg client_ok query
      = Inr (''Error fetching locations: '' @ py_str R v)"
    using assms(5) by (simp add: search_locations_result [OF ok] locations_of_result_error)
  have s_down: "search_locations R cfg client_down query
      = Inr (''Error fetching locations: '' @ py_str R v)"
    by (simp only: search_locations_result [OF down] locations_of_result_error [OF marker] same)
  have s_http: "search_locations R cfg client_http query
      = Inr (''Error fetching locations: '' @ py_str R v)"
    by (simp only: search_locations_result [OF http] locations_of_result_error [OF marker] same)
  have g_ok: "get_restaurants R cfg client_ok location_id
      = Inr (''Error fetching restaurants: '' @ py_str R v)"
    using assms(5) by (simp add: get_restaurants_result [OF ok] restaurants_of_result_error)
  have g_down: "get_restaurants R cfg client_down location_id
      = Inr (''Error fetching restaurants: '' @ py_str R v)"
    by (simp only: get_restaurants_result [OF down] restaurants_of_result_error [OF marker] same)
  have g_http: "get_restaurants R cfg client_http location_id
      = Inr (''Error fetching restaurants: '' @ py_str R v)"
    by (simp only: get_restaurants_result [OF http] restaurants_of_result_error [OF marker] same)
  from s_ok s_down s_http g_ok g_down g_http show ?thesis by simp
qed

theorem error_key_indistinguishable_witness:
  "search_locations (\<lambda>v::unit json. [])
     \<lparr>KEY = ''k'', HOST = ''booking-com15.p.rapidapi.com''\<rparr>
     (\<lambda>url headers params. Inr (Response 200 ''OK'' (Inr (JObj
        [(''error'', JStr ''quota exceeded''), (''data'', JArr [])]))))
     ''Paris''
   = Inr ''Error fetching locations: quota exceeded''
   \<and> search_locations (\<lambda>v::unit json. [])
     \<lparr>KEY = ''k'', HOST = ''booking-com15.p.rapidapi.com''\<rparr>
     (\<lambda>url headers params. Inl ''quota exceeded'') ''Paris''
   = Inr ''Error fetching locations: quota exceeded''
   \<and> get_restaurants (\<lambda>v::unit json. [])
     \<lparr>KEY = ''k'', HOST = ''booking-com15.p.rapidapi.com''\<rparr>
     (\<lambda>url headers params. Inr (Response 429 ''quota exceeded'' (Inl ''no body'')))
     ''123''
   = Inr ''Error fetching restaurants: quota exceeded''"
proof -
  let ?R = "\<lambda>v::unit json. []::string"
  let ?cfg = "\<lparr>KEY = ''k'', HOST = ''booking-com15.p.rapidapi.com''\<rparr>"
  let ?d = "[(''error'', JStr ''quota exceeded''), (''data'', JArr [])]
      :: (string \<times> unit json) list"
  let ?r = "Response 200 ''OK'' (Inr (JObj ?d)) :: unit response"
  let ?r' = "Response 429 ''quota exceeded'' (Inl ''no body'') :: unit response"
  let ?ok = "\<lambda>(url::string) (headers::(string \<times> string) list)
      (params::(string \<times> string) list option). (Inr ?r :: string + unit response)"
  let ?down = "\<lambda>(url::string) (headers::(string \<times> string) list)
      (params::(string \<times> string) list option).
      (Inl ''quota exceeded'' :: string + unit response)"
  let ?http = "\<lambda>(url::string) (headers::(string \<times> string) list)
      (params::(string \<times> string) list option). (Inr ?r' :: string + unit response)"
  have str: "py_str ?R (JStr ''quota exceeded'') = ''quota exceeded''"
    by (simp add: py_str_def)
  have h1: "\<And>url headers params. ?ok url headers params = Inr ?r" by simp
  have h2: "200 \<le> status_code ?r" by simp
  have h3: "status_code ?r \<le> 299" by simp
  have h4: "body_json ?r = Inr (JObj ?d)" by simp
  have h5: "map_of ?d ''error'' = Some (JStr ''quota exceeded'')" by simp
  have h6: "\<And>url headers params.
      ?down url headers params = Inl (py_str ?R (JStr ''quota exceeded''))"
    by (simp add: str)
  have h7: "\<And>url headers params. ?http url headers params = Inr ?r'" by simp
  have h8: "status_code ?r' < 200 \<or> 299 < status_code ?r'" by simp
  have h9: "status_message ?r' = py_str ?R (JStr ''quota exceeded'')"
    by (simp add: str)
  note inst = error_key_indistinguishable [of ?ok ?r ?d "JStr ''quota exceeded''" ?down ?R
      ?http ?r' ?cfg "''Paris''" "''123''", OF h1 h2 h3 h4 h5 h6 h7 h8 h9]
  from inst have "search_locations ?R ?cfg ?ok ''Paris''
      = Inr (''Error fetching locations: '' @ py_str ?R (JStr ''quota exceeded''))"
    by blast
  moreover from inst have "search_locations ?R ?cfg ?down ''Paris''
      = Inr (''Error fetching locations: '' @ py_str ?R (JStr ''quota exceeded''))"
    by simp
  moreover from inst have "get_restaurants ?R ?cfg ?http ''123''
      = Inr (''Error fetching restaurants: '' @ py_str ?R (JStr ''quota exceeded''))"
    by simp
  ultimately show ?thesis by (simp add: str)
qed

subsection \<open>C10: entries that are not objects\<close>

text \<open>
  Claim C10. For a gateway result without \<^verbatim>\<open>"error"\<close> whose \<^verbatim>\<open>"data"\<close> is a list,
  \<^verbatim>\<open>search_locations\<close> returns a string exactly when every element of the list is a JSON
  object; otherwise the field lookup raises \<^verbatim>\<open>AttributeError\<close>, which nothing catches.
  The same holds for \<^verbatim>\<open>get_restaurants\<close> and the first ten elements of its nested list.
  \<^verbatim>\<open>get_restaurants\<close> also raises (\<^verbatim>\<open>TypeError\<close>, from the membership test) when the
  top-level \<^verbatim>\<open>"data"\<close> is null, a boolean or a number.
\<close>

theorem non_object_entries_raise:
  "(call_rapidapi_request cfg client ''/api/v1/restaurant/searchLocation''
        (Some [(''query'', query)]) = Inr (JObj d)
      \<and> map_of d ''error'' = None \<and> map_of d ''data'' = Some (JArr xs)
    \<longrightarrow> ((\<exists>s. search_locations R cfg client query = Inr s) = list_all is_object xs)
        \<and> (\<not> list_all is_object xs
            \<longrightarrow> search_locations R cfg client query = Inl AttributeError))
   \<and> (call_rapidapi_request cfg client' ''/api/v1/restaurant/searchRestaurants''
        (Some [(''locationId'', location_id)]) = Inr (JObj d')
      \<and> map_of d' ''error'' = None \<and> map_of d' ''data'' = Some (JObj d1)
      \<and> map_of d1 ''data'' = Some (JArr ys)
    \<longrightarrow> ((\<exists>s. get_restaurants R cfg client' location_id = Inr s)
           = list_all is_object (take 10 ys))
        \<and> (\<not> list_all is_object (take 10 ys)
            \<longrightarrow> get_restaurants R cfg client' location_id = Inl AttributeError))
   \<and> (call_rapidapi_request cfg client'' ''/api/v1/restaurant/searchRestaurants''
        (Some [(''locationId'', location_id)]) = Inr (JObj d'')
      \<and> map_of d'' ''error'' = None \<and> map_of d'' ''data'' = Some v
      \<and> (v = JNull \<or> v = JBool b \<or> v = JInt i \<or> v = JFloat f)
    \<longrightarrow> get_restaurants R cfg client'' location_id = Inl TypeError)"
proof (intro conjI impI; elim conjE)
  assume gw: "call_rapidapi_request cfg client ''/api/v1/restaurant/searchLocation''
        (Some [(''query'', query)]) = Inr (JObj d)"
    and shape: "map_of d ''error'' = None" "map_of d ''data'' = Some (JArr xs)"
  have tool: "search_locations R cfg client query = locations_of_result R (JObj d)"
    using gw by (rule search_locations_result)
  show "(\<exists>s. search_locations R cfg client query = Inr s) = list_all is_object xs"
    by (simp add: tool locations_of_result_list [OF shape])
  show "search_locations R cfg client query = Inl AttributeError"
    if "\<not> list_all is_object xs"
    using that by (simp add: tool locations_of_result_list [OF shape])
next
  assume gw: "call_rapidapi_request cfg client' ''/api/v1/restaurant/searchRestaurants''
        (Some [(''locationId'', location_id)]) = Inr (JObj d')"
    and shape: "map_of d' ''error'' = None" "map_of d' ''data'' = Some (JObj d1)"
      "map_of d1 ''data'' = Some (JArr ys)"
  have tool: "get_restaurants R cfg client' location_id = restaurants_of_result R (JObj d')"
    using gw by (rule get_restaurants_result)
  show "(\<exists>s. get_restaurants R cfg client' location_id = Inr s)
      = list_all is_object (take 10 ys)"
    by (simp add: tool restaurants_of_result_list [OF shape])
  show "get_restaurants R cfg client' location_id = Inl AttributeError"
    if "\<not> list_all is_object (take 10 ys)"
    using that by (simp add: tool restaurants_of_result_list [OF shape])
next
  assume gw: "call_rapidapi_request cfg client'' ''/api/v1/restaurant/searchRestaurants''
        (Some [(''locationId'', location_id)]) = Inr (JObj d'')"
    and shape: "map_of d'' ''error'' = None" "map_of d'' ''data'' = Some v"
    and scalar: "v = JNull \<or> v = JBool b \<or> v = JInt i \<or> v = JFloat f"
  have "get_restaurants R cfg client'' location_id = restaurants_of_result R (JObj d'')"
    using gw by (rule get_restaurants_result)
  then show "get_restaurants R cfg client'' location_id = Inl TypeError"
    by (simp add: restaurants_of_result_scalar [OF shape scalar])
qed

theorem non_object_entries_raise_witness:
  "search_locations (\<lambda>v::unit json. [])
     \<lparr>KEY = ''k'', HOST = ''booking-com15.p.rapidapi.com''\<rparr>
     (\<lambda>url headers params. Inr (Response 200 ''OK'' (Inr (JObj
        [(''data'', JArr [JObj [(''localizedName'', JStr ''Paris'')], JStr ''Paris'']) ]))))
     ''Paris''
   = Inl AttributeError
   \<and> get_restaurants (\<lambda>v::unit json. [])
     \<lparr>KEY = ''k'', HOST = ''booking-com15.p.rapidapi.com''\<rparr>
     (\<lambda>url headers params. Inr (Response 200 ''OK'' (Inr (JObj
        [(''data'', JObj [(''data'', JArr [JObj [(''name'', JStr ''Chez Nous'')],
           JNull])])]))))
     ''123''
   = Inl AttributeError
   \<and> get_restaurants (\<lambda>v::unit json. [])
     \<lparr>KEY = ''k'', HOST = ''booking-com15.p.rapidapi.com''\<rparr>
     (\<lambda>url headers params. Inr (Response 200 ''OK'' (Inr (JObj [(''data'', JInt 0)]))))
     ''123''
   = Inl TypeError"
proof -
  let ?R = "\<lambda>v::unit json. []::string"
  let ?cfg = "\<lparr>KEY = ''k'', HOST = ''booking-com15.p.rapidapi.com''\<rparr>"
  let ?xs = "[JObj [(''localizedName'', JStr ''Paris'')], JStr ''Paris''] :: unit json list"
  let ?d = "[(''data'', JArr ?xs)]"
  let ?ys = "[JObj [(''name'', JStr ''Chez Nous'')], JNull] :: unit json list"
  let ?d1 = "[(''data'', JArr ?ys)]"
  let ?d' = "[(''data'', JObj ?d1)]"
  let ?d'' = "[(''data'', JInt 0)] :: (string \<times> unit json) list"
  let ?client = "\<lambda>(url::string) (headers::(string \<times> string) list)
      (params::(string \<times> string) list option).
      (Inr (Response 200 ''OK'' (Inr (JObj ?d))) :: string + unit response)"
  let ?client' = "\<lambda>(url::string) (headers::(string \<times> string) list)
      (params::(string \<times> string) list option).
      (Inr (Response 200 ''OK'' (Inr (JObj ?d'))) :: string + unit response)"
  let ?client'' = "\<lambda>(url::string) (headers::(string \<times> string) list)
      (params::(string \<times> string) list option).
      (Inr (Response 200 ''OK'' (Inr (JObj ?d''))) :: string + unit response)"
  have gw1: "call_rapidapi_request ?cfg ?client ''/api/v1/restaurant/searchLocation''
             (Some [(''query'', ''Paris'')]) = Inr (JObj ?d)"
    by (simp add: call_rapidapi_request_cases)
  have gw2: "call_rapidapi_request ?cfg ?client' ''/api/v1/restaurant/searchRestaurants''
             (Some [(''locationId'', ''123'')]) = Inr (JObj ?d')"
    by (simp add: call_rapidapi_request_cases)
  have gw3: "call_rapidapi_request ?cfg ?client'' ''/api/v1/restaurant/searchRestaurants''
             (Some [(''locationId'', ''123'')]) = Inr (JObj ?d'')"
    by (simp add: call_rapidapi_request_cases)
  have h1: "map_of ?d ''error'' = None \<and> map_of ?d ''data'' = Some (JArr ?xs)"
    by simp
  have n1: "\<not> list_all is_object ?xs" by (simp add: is_object_def)
  have h2: "map_of ?d' ''error'' = None \<and> map_of ?d' ''data'' = Some (JObj ?d1)
      \<and> map_of ?d1 ''data'' = Some (JArr ?ys)"
    by simp
  have n2: "\<not> list_all is_object (take 10 ?ys)" by (simp add: is_object_def)
  have h3: "map_of ?d'' ''error'' = None \<and> map_of ?d'' ''data'' = Some (JInt 0)"
    by simp
  note inst = non_object_entries_raise [of ?cfg ?client "''Paris''" ?d ?xs ?R
      ?client' "''123''" ?d' ?d1 ?ys ?client'' ?d'' "JInt 0" _ 0]
  from inst gw1 h1 n1 have "search_locations ?R ?cfg ?client ''Paris'' = Inl AttributeError"
    by blast
  moreover from inst gw2 h2 n2 have
    "get_restaurants ?R ?cfg ?client' ''123'' = Inl AttributeError"
    by blast
  moreover from inst gw3 h3 have "get_restaurants ?R ?cfg ?client'' ''123'' = Inl TypeError"
    by blast
  ultimately show ?thesis by blast
qed

end
